theory Spec2Isabelle
  imports Main "HOL-Library.Char_ord" "HOL-Library.List_Lexorder"
begin

section \<open>The CSV comparison script \<^verbatim>\<open>csv_comparision.py\<close>\<close>

text \<open>
  The script has one function, \<^verbatim>\<open>compare_csv_files(file1_path, file2_path, output_dir)\<close>.
  It reads two CSV files with pandas (every cell as a string), turns each table into a
  Python set of row tuples, takes the intersection and the two differences, prints the
  counts and writes each non-empty difference to a CSV file.

  What the function takes from outside is collected in an environment: the clock, the
  working directory, the pandas reader, the reply typed at the prompt and the order in
  which the interpreter iterates over a set. What it does to the outside is collected in
  an outcome: the lines printed, the directory created and the two optional CSV writes.
  Failures of \<^verbatim>\<open>os.makedirs\<close> and \<^verbatim>\<open>to_csv\<close> are not caught by the source and are not
  modelled: both calls are taken to succeed.
\<close>

subsection \<open>Tables\<close>

text \<open>
  A pandas DataFrame read with \<^verbatim>\<open>dtype=str, keep_default_na=False, na_filter=False\<close>:
  the column labels and the rows, every cell a string. A row tuple is a list of strings.
\<close>

type_synonym row = "string list"

record dataframe =
  columns :: "string list"
  rows :: "row list"

text \<open>\<^verbatim>\<open>str(x)\<close> of a value that is a \<^verbatim>\<open>str\<close> already is that string.\<close>

definition str :: "string \<Rightarrow> string" where
  "str s = s"

text \<open>\<^verbatim>\<open>df.astype(str)\<close>: every cell converted with \<^verbatim>\<open>str\<close>.\<close>

definition astype_str :: "dataframe \<Rightarrow> dataframe" where
  "astype_str df = df\<lparr>rows := map (map str) (rows df)\<rparr>"

text \<open>\<^verbatim>\<open>df.itertuples(index=False, name=None)\<close>: one plain tuple per row, in row order,
  without the index.\<close>

definition itertuples :: "dataframe \<Rightarrow> row list" where
  "itertuples df = rows df"

subsection \<open>Lines 67 to 80: the row sets and the statistics\<close>

record comparison =
  df1_rows :: "row set"
  df2_rows :: "row set"
  common_rows :: "row set"
  missing_in_file2 :: "row set"
  missing_in_file1 :: "row set"
  total_rows_file1 :: nat
  total_rows_file2 :: nat
  identical_rows :: nat
  rows_missing_in_file2 :: nat
  rows_missing_in_file1 :: nat

definition compare_rows :: "dataframe \<Rightarrow> dataframe \<Rightarrow> comparison" where
  "compare_rows df1 df2 =
     (let d1 = set (itertuples (astype_str df1));
          d2 = set (itertuples (astype_str df2));
          common = d1 \<inter> d2;
          missing2 = d1 - d2;
          missing1 = d2 - d1
      in \<lparr>df1_rows = d1, df2_rows = d2, common_rows = common,
          missing_in_file2 = missing2, missing_in_file1 = missing1,
          total_rows_file1 = length (rows df1),
          total_rows_file2 = length (rows df2),
          identical_rows = card common,
          rows_missing_in_file2 = card missing2,
          rows_missing_in_file1 = card missing1\<rparr>)"

subsection \<open>Paths and strings of the standard library\<close>

text \<open>\<^verbatim>\<open>os.path.basename\<close> (POSIX): what follows the last slash.\<close>

definition basename :: "string \<Rightarrow> string" where
  "basename p = rev (takeWhile (\<lambda>c. c \<noteq> CHR ''/'') (rev p))"

text \<open>\<^verbatim>\<open>s.split('.')[0]\<close>: what precedes the first dot, the whole string when it has none.\<close>

definition split_dot_0 :: "string \<Rightarrow> string" where
  "split_dot_0 s = takeWhile (\<lambda>c. c \<noteq> CHR ''.'') s"

text \<open>\<^verbatim>\<open>os.path.join(a, b)\<close> (POSIX), one component at a time.\<close>

definition path_join :: "string \<Rightarrow> string \<Rightarrow> string" where
  "path_join a b =
     (if b \<noteq> [] \<and> hd b = CHR ''/'' then b
      else if a = [] \<or> last a = CHR ''/'' then a @ b
      else a @ ''/'' @ b)"

text \<open>\<^verbatim>\<open>s.lower()\<close> on ASCII letters; other bytes are kept.\<close>

definition lower_char :: "char \<Rightarrow> char" where
  "lower_char c =
     (if CHR ''A'' \<le> c \<and> c \<le> CHR ''Z'' then char_of (of_char c + (32::nat)) else c)"

definition lower :: "string \<Rightarrow> string" where
  "lower s = map lower_char s"

subsection \<open>Environment and outcome\<close>

record env =
  now :: string
  getcwd :: string
  read_csv :: "string \<Rightarrow> string + dataframe"
  input_reply :: string
  list_of_set :: "row set \<Rightarrow> row list"

text \<open>
  \<^item> \<open>now\<close>: \<^verbatim>\<open>datetime.now().strftime("%Y%m%d_%H%M%S")\<close>;
  \<^item> \<open>read_csv\<close>: \<^verbatim>\<open>pd.read_csv(path, dtype=str, keep_default_na=False, na_filter=False)\<close>,
    \<open>Inl\<close> the text of the exception it raised;
  \<^item> \<open>input_reply\<close>: what \<^verbatim>\<open>input(...)\<close> returns;
  \<^item> \<open>list_of_set\<close>: \<^verbatim>\<open>list(s)\<close> for a set \<open>s\<close>, the elements in the interpreter's
    iteration order. The order follows the hashes of the row tuples, and string hashes are
    salted per process, so it belongs to the run and not to the input.
\<close>

text \<open>What \<^verbatim>\<open>list(s)\<close> guarantees: every element of the set, once.\<close>

definition lists_each_once :: "(row set \<Rightarrow> row list) \<Rightarrow> bool" where
  "lists_each_once f = (\<forall>S. finite S \<longrightarrow> set (f S) = S \<and> distinct (f S))"

text \<open>One constructor for each \<^verbatim>\<open>print\<close> of the source, with the values it formats.\<close>

datatype line =
    Comparing string string
  | Error_reading string
  | Warning_columns
  | Columns_in string "string list"
  | Proceed_prompt
  | Comparison_aborted
  | Comparison_results
  | Total_rows string nat
  | Identical_rows nat
  | Rows_missing string string nat
  | Saved_to string string string
  | No_records_missing string string

record outcome =
  printed :: "line list"
  made_dirs :: "string list"
  csv_missing_in_file2 :: "(string \<times> dataframe) option"
  csv_missing_in_file1 :: "(string \<times> dataframe) option"

subsection \<open>The function\<close>

definition default_output_dir :: "string \<Rightarrow> string \<Rightarrow> string" where
  "default_output_dir cwd timestamp =
     path_join (path_join (path_join cwd (take 4 timestamp)) (take 2 (drop 4 timestamp)))
       (take 2 (drop 6 timestamp))"

definition missing_path :: "string \<Rightarrow> string \<Rightarrow> string \<Rightarrow> string \<Rightarrow> string" where
  "missing_path output_dir name_a name_b timestamp =
     path_join output_dir (name_a @ ''_missing_in_'' @ name_b @ ''_'' @ timestamp @ ''.csv'')"

text \<open>Lines 21 to 23: the directory given, or year, month and day under the working
  directory.\<close>

definition output_dir_of :: "env \<Rightarrow> string option \<Rightarrow> string" where
  "output_dir_of e output_dir_arg =
     (case output_dir_arg of
        None \<Rightarrow> default_output_dir (getcwd e) (now e)
      | Some d \<Rightarrow> d)"

text \<open>Line 56: the column labels compared as sets.\<close>

definition columns_differ :: "dataframe \<Rightarrow> dataframe \<Rightarrow> bool" where
  "columns_differ df1 df2 = (set (columns df1) \<noteq> set (columns df2))"

text \<open>Lines 56 to 63: the run goes on to the comparison unless the column sets differ
  and the reply, in lower case, is not \<^verbatim>\<open>y\<close>.\<close>

definition proceeds :: "env \<Rightarrow> dataframe \<Rightarrow> dataframe \<Rightarrow> bool" where
  "proceeds e df1 df2 = (\<not> (columns_differ df1 df2 \<and> lower (input_reply e) \<noteq> ''y''))"

definition compare_csv_files :: "env \<Rightarrow> string \<Rightarrow> string \<Rightarrow> string option \<Rightarrow> outcome" where
  "compare_csv_files e file1_path file2_path output_dir_arg =
     (let timestamp = now e;
          output_dir = output_dir_of e output_dir_arg;
          file1_name = split_dot_0 (basename file1_path);
          file2_name = split_dot_0 (basename file2_path);
          missing_in_file2_path = missing_path output_dir file1_name file2_name timestamp;
          missing_in_file1_path = missing_path output_dir file2_name file1_name timestamp;
          start = \<lparr>printed = [Comparing file1_path file2_path], made_dirs = [output_dir],
                   csv_missing_in_file2 = None, csv_missing_in_file1 = None\<rparr>
      in case read_csv e file1_path of
           Inl err \<Rightarrow> start\<lparr>printed := printed start @ [Error_reading err]\<rparr>
         | Inr df1 \<Rightarrow>
            (case read_csv e file2_path of
               Inl err \<Rightarrow> start\<lparr>printed := printed start @ [Error_reading err]\<rparr>
             | Inr df2 \<Rightarrow>
                (let warning =
                       (if columns_differ df1 df2
                        then [Warning_columns, Columns_in file1_name (columns df1),
                              Columns_in file2_name (columns df2), Proceed_prompt]
                        else [])
                 in if columns_differ df1 df2 \<and> lower (input_reply e) \<noteq> ''y''
                    then start\<lparr>printed := printed start @ warning @ [Comparison_aborted]\<rparr>
                    else
                      (let c = compare_rows df1 df2;
                           results =
                             [Comparison_results,
                              Total_rows file1_name (total_rows_file1 c),
                              Total_rows file2_name (total_rows_file2 c),
                              Identical_rows (identical_rows c),
                              Rows_missing file1_name file2_name (rows_missing_in_file2 c),
                              Rows_missing file2_name file1_name (rows_missing_in_file1 c)];
                           csv2 =
                             (if rows_missing_in_file2 c > 0
                              then Some (missing_in_file2_path,
                                         \<lparr>columns = columns df1,
                                          rows = list_of_set e (missing_in_file2 c)\<rparr>)
                              else None);
                           csv1 =
                             (if rows_missing_in_file1 c > 0
                              then Some (missing_in_file1_path,
                                         \<lparr>columns = columns df2,
                                          rows = list_of_set e (missing_in_file1 c)\<rparr>)
                              else None)
                       in \<lparr>printed = printed start @ warning @ results @
                             [if rows_missing_in_file2 c > 0
                              then Saved_to file1_name file2_name missing_in_file2_path
                              else No_records_missing file1_name file2_name,
                              if rows_missing_in_file1 c > 0
                              then Saved_to file2_name file1_name missing_in_file1_path
                              else No_records_missing file2_name file1_name],
                           made_dirs = made_dirs start,
                           csv_missing_in_file2 = csv2,
                           csv_missing_in_file1 = csv1\<rparr>))))"

subsection \<open>Reordered columns\<close>

text \<open>
  The same data under another column order: \<open>reorder p\<close> puts field \<open>p ! k\<close> at position
  \<open>k\<close>, and is applied to the header and to every row. It is used for tables whose rows
  have one field per column and for \<open>p\<close> a permutation of the column positions.
\<close>

definition reorder :: "nat list \<Rightarrow> 'a list \<Rightarrow> 'a list" where
  "reorder p xs = map (\<lambda>i. xs ! i) p"

definition reordered :: "nat list \<Rightarrow> dataframe \<Rightarrow> dataframe" where
  "reordered p df = \<lparr>columns = reorder p (columns df), rows = map (reorder p) (rows df)\<rparr>"

subsection \<open>Example tables and runs\<close>

definition left_table :: dataframe where
  "left_table = \<lparr>columns = [''id'', ''code''],
                  rows = [[''1'', ''007''], [''2'', ''x''], [''3'', ''y'']]\<rparr>"

definition right_table :: dataframe where
  "right_table = \<lparr>columns = [''id'', ''code''], rows = [[''1'', ''7''], [''2'', ''x'']]\<rparr>"

definition ab_table :: dataframe where
  "ab_table = \<lparr>columns = [''a'', ''b''], rows = [[''1'', ''2'']]\<rparr>"

text \<open>The permutation that swaps two columns.\<close>

definition swapped :: "nat list" where
  "swapped = [1, 0]"

definition example_read_csv :: "string \<Rightarrow> string + dataframe" where
  "example_read_csv p =
     (if p = ''old/left.csv'' then Inr left_table
      else if p = ''new/right.csv'' then Inr right_table
      else if p = ''ab.csv'' then Inr ab_table
      else if p = ''ba.csv'' then Inr (reordered swapped ab_table)
      else Inl ''No such file or directory'')"

text \<open>Two runs that differ in the iteration order of sets only.\<close>

definition run_ascending :: env where
  "run_ascending = \<lparr>now = ''20240131_235959'', getcwd = ''/work'',
                     read_csv = example_read_csv, input_reply = ''n'',
                     list_of_set = sorted_list_of_set\<rparr>"

definition run_descending :: env where
  "run_descending = run_ascending\<lparr>list_of_set := (\<lambda>S. rev (sorted_list_of_set S))\<rparr>"


text \<open>A table with a row that the swap of its two columns leaves as it is, and a run that
  reads it as \<^verbatim>\<open>ab.csv\<close> and, with the columns swapped, as \<^verbatim>\<open>ba.csv\<close>.\<close>

definition repeated_field_table :: dataframe where
  "repeated_field_table = \<lparr>columns = [''a'', ''b''], rows = [[''1'', ''1''], [''1'', ''2'']]\<rparr>"

definition repeated_field_read_csv :: "string \<Rightarrow> string + dataframe" where
  "repeated_field_read_csv p =
     (if p = ''ab.csv'' then Inr repeated_field_table
      else if p = ''ba.csv'' then Inr (reordered swapped repeated_field_table)
      else Inl ''No such file or directory'')"

definition run_repeated_field :: env where
  "run_repeated_field = run_ascending\<lparr>read_csv := repeated_field_read_csv\<rparr>"

text \<open>A table whose only row is repeated.\<close>

definition duplicated_table :: dataframe where
  "duplicated_table = \<lparr>columns = [''a'', ''b''], rows = [[''1'', ''2''], [''1'', ''2'']]\<rparr>"

subsection \<open>Tables up to row order\<close>

text \<open>Two tables with the same header and the same rows, no row twice, in any order.\<close>

definition same_up_to_row_order :: "dataframe \<Rightarrow> dataframe \<Rightarrow> bool" where
  "same_up_to_row_order t t' =
     (columns t = columns t' \<and> set (rows t) = set (rows t')
      \<and> distinct (rows t) \<and> distinct (rows t'))"

section \<open>Properties\<close>

subsection \<open>The row sets\<close>

lemma astype_str_same: "astype_str df = df"
  by (simp add: astype_str_def str_def map_idI)

lemma compare_rows_sets:
  "df1_rows (compare_rows df1 df2) = set (rows df1)"
  "df2_rows (compare_rows df1 df2) = set (rows df2)"
  "common_rows (compare_rows df1 df2) = set (rows df1) \<inter> set (rows df2)"
  "missing_in_file2 (compare_rows df1 df2) = set (rows df1) - set (rows df2)"
  "missing_in_file1 (compare_rows df1 df2) = set (rows df2) - set (rows df1)"
  by (simp_all add: compare_rows_def Let_def astype_str_same itertuples_def)

lemma compare_rows_counts:
  "total_rows_file1 (compare_rows df1 df2) = length (rows df1)"
  "total_rows_file2 (compare_rows df1 df2) = length (rows df2)"
  "identical_rows (compare_rows df1 df2) = card (set (rows df1) \<inter> set (rows df2))"
  "rows_missing_in_file2 (compare_rows df1 df2) = card (set (rows df1) - set (rows df2))"
  "rows_missing_in_file1 (compare_rows df1 df2) = card (set (rows df2) - set (rows df1))"
  by (simp_all add: compare_rows_def Let_def astype_str_same itertuples_def)

text \<open>
  C1 (partition completeness). The common rows together with the rows missing in file 2
  are the distinct rows of the first table, the common rows together with the rows missing
  in file 1 are the distinct rows of the second table, and the three collections are
  pairwise disjoint.
\<close>

theorem partition_completeness:
  "common_rows (compare_rows df1 df2) \<union> missing_in_file2 (compare_rows df1 df2)
     = set (rows df1)
   \<and> common_rows (compare_rows df1 df2) \<union> missing_in_file1 (compare_rows df1 df2)
     = set (rows df2)
   \<and> missing_in_file2 (compare_rows df1 df2) \<inter> missing_in_file1 (compare_rows df1 df2) = {}
   \<and> missing_in_file2 (compare_rows df1 df2) \<inter> common_rows (compare_rows df1 df2) = {}
   \<and> missing_in_file1 (compare_rows df1 df2) \<inter> common_rows (compare_rows df1 df2) = {}"
  unfolding compare_rows_sets by blast

subsection \<open>The counts\<close>

lemma card_inter_diff: "finite A \<Longrightarrow> card (A \<inter> B) + card (A - B) = card A"
  by (metis Diff_Diff_Int Diff_subset card_Diff_subset card_mono finite_Diff
      le_add_diff_inverse2)

text \<open>
  C2 as stated: every reported count, the two totals included, is a number of distinct
  rows. It fails for the totals: \<^verbatim>\<open>len(df1)\<close> counts the rows of the table, and a table
  with one row written twice has two rows and one distinct row.
\<close>

theorem total_rows_counterexample:
  "total_rows_file1 (compare_rows duplicated_table duplicated_table)
     \<noteq> card (df1_rows (compare_rows duplicated_table duplicated_table))"
  by (simp add: compare_rows_counts compare_rows_sets duplicated_table_def)

text \<open>
  C2, amended. The counts of common rows and of rows missing on either side are numbers
  of distinct rows: the common count and the missing count of a side add up to the number
  of distinct rows of that side. The two totals are the raw row counts of the tables, and
  a total equals the number of distinct rows exactly when the table has no repeated row.
\<close>

theorem counts_reported:
  "identical_rows (compare_rows df1 df2) = card (common_rows (compare_rows df1 df2))
   \<and> rows_missing_in_file2 (compare_rows df1 df2) = card (missing_in_file2 (compare_rows df1 df2))
   \<and> rows_missing_in_file1 (compare_rows df1 df2) = card (missing_in_file1 (compare_rows df1 df2))
   \<and> identical_rows (compare_rows df1 df2) + rows_missing_in_file2 (compare_rows df1 df2)
       = card (set (rows df1))
   \<and> identical_rows (compare_rows df1 df2) + rows_missing_in_file1 (compare_rows df1 df2)
       = card (set (rows df2))
   \<and> total_rows_file1 (compare_rows df1 df2) = length (rows df1)
   \<and> total_rows_file2 (compare_rows df1 df2) = length (rows df2)
   \<and> (total_rows_file1 (compare_rows df1 df2) = card (set (rows df1)) \<longleftrightarrow> distinct (rows df1))
   \<and> (total_rows_file2 (compare_rows df1 df2) = card (set (rows df2)) \<longleftrightarrow> distinct (rows df2))"
proof -
  have "card (set (rows df1) \<inter> set (rows df2)) + card (set (rows df1) - set (rows df2))
          = card (set (rows df1))"
    by (rule card_inter_diff) simp
  moreover have "card (set (rows df1) \<inter> set (rows df2)) + card (set (rows df2) - set (rows df1))
          = card (set (rows df2))"
    using card_inter_diff [of "set (rows df2)" "set (rows df1)"] by (simp add: Int_commute)
  moreover have "(length (rows df1) = card (set (rows df1))) = distinct (rows df1)"
    using card_distinct distinct_card by metis
  moreover have "(length (rows df2) = card (set (rows df2))) = distinct (rows df2)"
    using card_distinct distinct_card by metis
  ultimately show ?thesis
    by (simp add: compare_rows_counts compare_rows_sets)
qed

subsection \<open>Algebra of the comparison\<close>

text \<open>
  C3 (idempotence). Comparing a table with itself leaves nothing missing on either side,
  and the common rows are the distinct rows of the table.
\<close>

theorem idempotence:
  "missing_in_file2 (compare_rows T T) = {}
   \<and> missing_in_file1 (compare_rows T T) = {}
   \<and> common_rows (compare_rows T T) = set (rows T)"
  by (simp add: compare_rows_sets)

text \<open>
  C4 (symmetry). Swapping the two tables swaps the two collections of missing rows.
\<close>

theorem symmetry:
  "missing_in_file2 (compare_rows A B) = missing_in_file1 (compare_rows B A)
   \<and> missing_in_file1 (compare_rows A B) = missing_in_file2 (compare_rows B A)"
  by (simp add: compare_rows_sets)

text \<open>
  C5 (duplicate collapse). For a table that is one row repeated \<open>N > 1\<close> times the counts
  of common and missing rows see one row: compared with itself the table has one common
  row and none missing; compared with any other table its row is counted once, as common
  or as missing; compared with the empty table one row is missing.
\<close>

theorem duplicate_collapse:
  assumes "rows T = replicate N r" and "1 < N"
  shows "identical_rows (compare_rows T T) = 1
         \<and> rows_missing_in_file2 (compare_rows T T) = 0
         \<and> rows_missing_in_file1 (compare_rows T T) = 0
         \<and> identical_rows (compare_rows T U) + rows_missing_in_file2 (compare_rows T U) = 1
         \<and> identical_rows (compare_rows U T) + rows_missing_in_file1 (compare_rows U T) = 1
         \<and> rows_missing_in_file2 (compare_rows T (T\<lparr>rows := []\<rparr>)) = 1
         \<and> rows_missing_in_file1 (compare_rows (T\<lparr>rows := []\<rparr>) T) = 1"
proof -
  have s: "set (rows T) = {r}"
    using assms by auto
  have a: "card ({r} \<inter> set (rows U)) + card ({r} - set (rows U)) = 1"
    using card_inter_diff [of "{r}" "set (rows U)"] by simp
  have b: "card (set (rows U) \<inter> {r}) + card ({r} - set (rows U)) = 1"
    using a by (simp add: Int_commute)
  show ?thesis
    using a b by (simp add: compare_rows_counts s)
qed

theorem duplicate_collapse_witness:
  "rows duplicated_table = replicate 2 [''1'', ''2''] \<and> (1::nat) < 2
   \<and> identical_rows (compare_rows duplicated_table duplicated_table) = 1
   \<and> rows_missing_in_file2 (compare_rows duplicated_table duplicated_table) = 0
   \<and> rows_missing_in_file2 (compare_rows duplicated_table (duplicated_table\<lparr>rows := []\<rparr>)) = 1"
  using duplicate_collapse [of duplicated_table 2 "[''1'', ''2'']"]
  by (simp add: duplicated_table_def numeral_2_eq_2)

subsection \<open>Runs of the function\<close>

text \<open>What a run returns on each of its paths: a failed read, a declined prompt, and the
  comparison carried out.\<close>

lemma run_read_error_1:
  assumes "read_csv e f1 = Inl err"
  shows "compare_csv_files e f1 f2 od =
           \<lparr>printed = [Comparing f1 f2, Error_reading err],
            made_dirs = [output_dir_of e od],
            csv_missing_in_file2 = None, csv_missing_in_file1 = None\<rparr>"
  using assms by (simp add: compare_csv_files_def Let_def)

lemma run_read_error_2:
  assumes "read_csv e f1 = Inr df1" and "read_csv e f2 = Inl err"
  shows "compare_csv_files e f1 f2 od =
           \<lparr>printed = [Comparing f1 f2, Error_reading err],
            made_dirs = [output_dir_of e od],
            csv_missing_in_file2 = None, csv_missing_in_file1 = None\<rparr>"
  using assms by (simp add: compare_csv_files_def Let_def)

lemma run_aborted:
  assumes "read_csv e f1 = Inr df1" and "read_csv e f2 = Inr df2" and "\<not> proceeds e df1 df2"
  shows "compare_csv_files e f1 f2 od =
           \<lparr>printed = [Comparing f1 f2, Warning_columns,
                       Columns_in (split_dot_0 (basename f1)) (columns df1),
                       Columns_in (split_dot_0 (basename f2)) (columns df2),
                       Proceed_prompt, Comparison_aborted],
            made_dirs = [output_dir_of e od],
            csv_missing_in_file2 = None, csv_missing_in_file1 = None\<rparr>"
  using assms by (simp add: compare_csv_files_def Let_def proceeds_def)

lemma warning_printed:
  assumes "read_csv e f1 = Inr df1" and "read_csv e f2 = Inr df2"
  shows "(Warning_columns \<in> set (printed (compare_csv_files e f1 f2 od))) = columns_differ df1 df2"
  using assms by (simp add: compare_csv_files_def Let_def)

lemma card_pos_set_diff: "(0 < card (set xs - set ys)) = (set xs - set ys \<noteq> {})"
  by (simp add: card_gt_0_iff)

lemma csv_missing_in_file2_run:
  assumes "read_csv e f1 = Inr df1" and "read_csv e f2 = Inr df2" and "proceeds e df1 df2"
  shows "csv_missing_in_file2 (compare_csv_files e f1 f2 od) =
           (if set (rows df1) - set (rows df2) \<noteq> {}
            then Some (missing_path (output_dir_of e od) (split_dot_0 (basename f1))
                         (split_dot_0 (basename f2)) (now e),
                       \<lparr>columns = columns df1,
                        rows = list_of_set e (set (rows df1) - set (rows df2))\<rparr>)
            else None)"
  using assms
  by (auto simp add: compare_csv_files_def Let_def proceeds_def compare_rows_sets
      compare_rows_counts card_pos_set_diff)

lemma csv_missing_in_file1_run:
  assumes "read_csv e f1 = Inr df1" and "read_csv e f2 = Inr df2" and "proceeds e df1 df2"
  shows "csv_missing_in_file1 (compare_csv_files e f1 f2 od) =
           (if set (rows df2) - set (rows df1) \<noteq> {}
            then Some (missing_path (output_dir_of e od) (split_dot_0 (basename f2))
                         (split_dot_0 (basename f1)) (now e),
                       \<lparr>columns = columns df2,
                        rows = list_of_set e (set (rows df2) - set (rows df1))\<rparr>)
            else None)"
  using assms
  by (auto simp add: compare_csv_files_def Let_def proceeds_def compare_rows_sets
      compare_rows_counts card_pos_set_diff)

lemma printed_run:
  assumes "read_csv e f1 = Inr df1" and "read_csv e f2 = Inr df2" and "proceeds e df1 df2"
  shows "printed (compare_csv_files e f1 f2 od) =
           Comparing f1 f2 #
           (if columns_differ df1 df2
            then [Warning_columns, Columns_in (split_dot_0 (basename f1)) (columns df1),
                  Columns_in (split_dot_0 (basename f2)) (columns df2), Proceed_prompt]
            else []) @
           [Comparison_results,
            Total_rows (split_dot_0 (basename f1)) (length (rows df1)),
            Total_rows (split_dot_0 (basename f2)) (length (rows df2)),
            Identical_rows (card (set (rows df1) \<inter> set (rows df2))),
            Rows_missing (split_dot_0 (basename f1)) (split_dot_0 (basename f2))
              (card (set (rows df1) - set (rows df2))),
            Rows_missing (split_dot_0 (basename f2)) (split_dot_0 (basename f1))
              (card (set (rows df2) - set (rows df1))),
            if set (rows df1) - set (rows df2) \<noteq> {}
            then Saved_to (split_dot_0 (basename f1)) (split_dot_0 (basename f2))
                   (missing_path (output_dir_of e od) (split_dot_0 (basename f1))
                      (split_dot_0 (basename f2)) (now e))
            else No_records_missing (split_dot_0 (basename f1)) (split_dot_0 (basename f2)),
            if set (rows df2) - set (rows df1) \<noteq> {}
            then Saved_to (split_dot_0 (basename f2)) (split_dot_0 (basename f1))
                   (missing_path (output_dir_of e od) (split_dot_0 (basename f2))
                      (split_dot_0 (basename f1)) (now e))
            else No_records_missing (split_dot_0 (basename f2)) (split_dot_0 (basename f1))]"
  using assms
  by (auto simp add: compare_csv_files_def Let_def proceeds_def compare_rows_sets
      compare_rows_counts card_pos_set_diff)

text \<open>The two tables are written to different paths unless the two files have the same
  base name up to the first dot: then both \<^verbatim>\<open>to_csv\<close> calls are given one path.\<close>

lemma missing_paths_coincide:
  assumes "split_dot_0 (basename f1) = split_dot_0 (basename f2)"
  shows "missing_path d (split_dot_0 (basename f1)) (split_dot_0 (basename f2)) t
           = missing_path d (split_dot_0 (basename f2)) (split_dot_0 (basename f1)) t"
  using assms by simp

subsection \<open>Iteration orders and the example runs\<close>

lemma lists_each_once_sorted: "lists_each_once sorted_list_of_set"
  by (simp add: lists_each_once_def)

lemma lists_each_once_rev_sorted: "lists_each_once (\<lambda>S. rev (sorted_list_of_set S))"
  by (simp add: lists_each_once_def)

lemma example_reads:
  "read_csv run_ascending ''old/left.csv'' = Inr left_table"
  "read_csv run_ascending ''new/right.csv'' = Inr right_table"
  "read_csv run_ascending ''ab.csv'' = Inr ab_table"
  "read_csv run_ascending ''ba.csv'' = Inr (reordered swapped ab_table)"
  "read_csv run_ascending ''absent.csv'' = Inl ''No such file or directory''"
  "read_csv run_descending = read_csv run_ascending"
  by (simp_all add: run_ascending_def run_descending_def example_read_csv_def)

lemma example_proceeds:
  "proceeds run_ascending left_table right_table"
  "proceeds run_descending left_table right_table"
  by (simp_all add: proceeds_def columns_differ_def left_table_def right_table_def)

lemma example_missing:
  "set (rows left_table) - set (rows right_table) = {[''1'', ''007''], [''3'', ''y'']}"
  "set (rows right_table) - set (rows left_table) = {[''1'', ''7'']}"
  by (auto simp add: left_table_def right_table_def)

lemma example_orders:
  "sorted_list_of_set {[''1'', ''007''], [''3'', ''y'']} = [[''1'', ''007''], [''3'', ''y'']]"
  "sorted_list_of_set {[''1'', ''7'']} = [[''1'', ''7'']]"
  by (simp_all add: less_char_def less_eq_char_def)

lemma example_reordered:
  "reordered swapped ab_table = \<lparr>columns = [''b'', ''a''], rows = [[''2'', ''1'']]\<rparr>"
  by (simp add: reordered_def reorder_def ab_table_def swapped_def)

lemma set_reorder:
  assumes "set p = {..<length xs}"
  shows "set (reorder p xs) = set xs"
proof -
  have "set (reorder p xs) = (\<lambda>i. xs ! i) ` {..<length xs}"
    by (simp add: reorder_def assms)
  also have "\<dots> = set xs"
    by (auto simp add: set_conv_nth)
  finally show ?thesis .
qed

subsection \<open>Text of the fields\<close>

text \<open>
  C6 (exact-text preservation). The row keys of a table are its rows as read, field by
  field, and a table written by the run has the header of its input table and, as rows,
  exactly the rows of that table that the other table lacks: every field written is a
  field read, unchanged. In the example the row with the field \<open>''007''\<close> is written as
  read, and is not the row with the field \<open>''7''\<close>.
\<close>

theorem exact_text_preservation:
  assumes "read_csv e f1 = Inr df1" and "read_csv e f2 = Inr df2"
    and "proceeds e df1 df2" and "lists_each_once (list_of_set e)"
  shows "df1_rows (compare_rows df1 df2) = set (rows df1)
         \<and> df2_rows (compare_rows df1 df2) = set (rows df2)
         \<and> (\<forall>p t. csv_missing_in_file2 (compare_csv_files e f1 f2 od) = Some (p, t) \<longrightarrow>
               columns t = columns df1 \<and> set (rows t) = set (rows df1) - set (rows df2))
         \<and> (\<forall>p t. csv_missing_in_file1 (compare_csv_files e f1 f2 od) = Some (p, t) \<longrightarrow>
               columns t = columns df2 \<and> set (rows t) = set (rows df2) - set (rows df1))"
proof -
  have each: "set (list_of_set e (set xs - set ys)) = set xs - set ys" for xs ys :: "row list"
    using assms(4) by (simp add: lists_each_once_def)
  show ?thesis
    by (auto simp add: compare_rows_sets each
        csv_missing_in_file2_run [OF assms(1,2,3)] csv_missing_in_file1_run [OF assms(1,2,3)]
        split: if_splits)
qed

theorem exact_text_preservation_witness:
  "read_csv run_ascending ''old/left.csv'' = Inr left_table
   \<and> read_csv run_ascending ''new/right.csv'' = Inr right_table
   \<and> proceeds run_ascending left_table right_table
   \<and> lists_each_once (list_of_set run_ascending)
   \<and> csv_missing_in_file2 (compare_csv_files run_ascending ''old/left.csv'' ''new/right.csv'' (Some ''out''))
       = Some (''out/left_missing_in_right_20240131_235959.csv'',
               \<lparr>columns = [''id'', ''code''], rows = [[''1'', ''007''], [''3'', ''y'']]\<rparr>)
   \<and> set (rows (snd (the (csv_missing_in_file2
         (compare_csv_files run_ascending ''old/left.csv'' ''new/right.csv'' (Some ''out''))))))
       = set (rows left_table) - set (rows right_table)
   \<and> [''1'', ''007''] \<in> set (rows left_table) - set (rows right_table)
   \<and> [''1'', ''7''] \<notin> set (rows left_table) - set (rows right_table)"
proof -
  have each: "lists_each_once (list_of_set run_ascending)"
    by (simp add: run_ascending_def lists_each_once_sorted)
  have out: "csv_missing_in_file2
        (compare_csv_files run_ascending ''old/left.csv'' ''new/right.csv'' (Some ''out''))
       = Some (''out/left_missing_in_right_20240131_235959.csv'',
               \<lparr>columns = [''id'', ''code''], rows = [[''1'', ''007''], [''3'', ''y'']]\<rparr>)"
    by (simp add: csv_missing_in_file2_run [OF example_reads(1,2) example_proceeds(1)]
        example_missing example_orders)
       (simp add: run_ascending_def left_table_def missing_path_def output_dir_of_def
        path_join_def basename_def split_dot_0_def example_orders)
  show ?thesis
    using exact_text_preservation [OF example_reads(1,2) example_proceeds(1) each, of "Some ''out''"]
    by (simp add: out example_reads example_proceeds each example_missing)
qed

subsection \<open>Which tables are written\<close>

text \<open>
  C7. When the comparison is carried out, the table of a side is written if and only if
  that side has a row the other side lacks. The statement is about the two \<^verbatim>\<open>to_csv\<close>
  calls, each recorded with its path and its table.
\<close>

theorem output_written_iff_unique_rows:
  assumes "read_csv e f1 = Inr df1" and "read_csv e f2 = Inr df2" and "proceeds e df1 df2"
  shows "(csv_missing_in_file2 (compare_csv_files e f1 f2 od) \<noteq> None)
           = (missing_in_file2 (compare_rows df1 df2) \<noteq> {})
         \<and> (csv_missing_in_file1 (compare_csv_files e f1 f2 od) \<noteq> None)
           = (missing_in_file1 (compare_rows df1 df2) \<noteq> {})"
  by (simp add: compare_rows_sets
      csv_missing_in_file2_run [OF assms] csv_missing_in_file1_run [OF assms])

theorem output_written_iff_unique_rows_witness:
  "read_csv run_ascending ''old/left.csv'' = Inr left_table
   \<and> read_csv run_ascending ''new/right.csv'' = Inr right_table
   \<and> proceeds run_ascending left_table right_table
   \<and> proceeds run_ascending left_table left_table
   \<and> missing_in_file2 (compare_rows left_table right_table) \<noteq> {}
   \<and> csv_missing_in_file2
        (compare_csv_files run_ascending ''old/left.csv'' ''new/right.csv'' None) \<noteq> None
   \<and> missing_in_file1 (compare_rows left_table left_table) = {}
   \<and> csv_missing_in_file1
        (compare_csv_files run_ascending ''old/left.csv'' ''old/left.csv'' None) = None"
proof -
  have p: "proceeds run_ascending left_table left_table"
    by (simp add: proceeds_def columns_differ_def)
  have m: "missing_in_file2 (compare_rows left_table right_table) \<noteq> {}"
    by (simp add: compare_rows_sets example_missing)
  have n: "missing_in_file1 (compare_rows left_table left_table) = {}"
    by (simp add: compare_rows_sets)
  have a: "csv_missing_in_file2
        (compare_csv_files run_ascending ''old/left.csv'' ''new/right.csv'' None) \<noteq> None"
    using output_written_iff_unique_rows [OF example_reads(1,2) example_proceeds(1), of None] m
    by blast
  have b: "csv_missing_in_file1
        (compare_csv_files run_ascending ''old/left.csv'' ''old/left.csv'' None) = None"
    using output_written_iff_unique_rows [OF example_reads(1,1) p, of None] n
    by blast
  show ?thesis
    using a b m n p example_reads(1,2) example_proceeds(1) by blast
qed

text \<open>
  C8. When the first file cannot be read, or the first can and the second cannot, the run
  prints the error with the text of the exception after the opening line, prints nothing
  else, and writes no table.
\<close>

theorem read_error_aborts:
  assumes "read_csv e f1 = Inl err \<or> (\<exists>df1. read_csv e f1 = Inr df1 \<and> read_csv e f2 = Inl err)"
  shows "printed (compare_csv_files e f1 f2 od) = [Comparing f1 f2, Error_reading err]
         \<and> csv_missing_in_file2 (compare_csv_files e f1 f2 od) = None
         \<and> csv_missing_in_file1 (compare_csv_files e f1 f2 od) = None"
  using assms by (auto simp add: run_read_error_1 run_read_error_2)

theorem read_error_aborts_witness:
  "read_csv run_ascending ''old/left.csv'' = Inr left_table
   \<and> read_csv run_ascending ''absent.csv'' = Inl ''No such file or directory''
   \<and> printed (compare_csv_files run_ascending ''old/left.csv'' ''absent.csv'' None)
       = [Comparing ''old/left.csv'' ''absent.csv'', Error_reading ''No such file or directory'']
   \<and> csv_missing_in_file2 (compare_csv_files run_ascending ''old/left.csv'' ''absent.csv'' None) = None
   \<and> csv_missing_in_file1 (compare_csv_files run_ascending ''old/left.csv'' ''absent.csv'' None) = None"
  using read_error_aborts [of run_ascending "''old/left.csv''" "''No such file or directory''"
          "''absent.csv''" None]
  by (simp add: example_reads)

subsection \<open>Row order of the written tables\<close>

text \<open>
  C9 as stated: two runs on the same two tables write identical tables, row order
  included. The rows are written in the order \<^verbatim>\<open>list(...)\<close> gives for a set, which belongs
  to the run: the two example runs read the same files and differ in that order only, and
  they write the two missing rows in opposite orders.
\<close>

theorem row_order_counterexample:
  "run_descending = run_ascending\<lparr>list_of_set := (\<lambda>S. rev (sorted_list_of_set S))\<rparr>
   \<and> lists_each_once (list_of_set run_ascending)
   \<and> lists_each_once (list_of_set run_descending)
   \<and> csv_missing_in_file2
        (compare_csv_files run_ascending ''old/left.csv'' ''new/right.csv'' (Some ''out''))
       = Some (''out/left_missing_in_right_20240131_235959.csv'',
               \<lparr>columns = [''id'', ''code''], rows = [[''1'', ''007''], [''3'', ''y'']]\<rparr>)
   \<and> csv_missing_in_file2
        (compare_csv_files run_descending ''old/left.csv'' ''new/right.csv'' (Some ''out''))
       = Some (''out/left_missing_in_right_20240131_235959.csv'',
               \<lparr>columns = [''id'', ''code''], rows = [[''3'', ''y''], [''1'', ''007'']]\<rparr>)
   \<and> csv_missing_in_file2
        (compare_csv_files run_ascending ''old/left.csv'' ''new/right.csv'' (Some ''out''))
       \<noteq> csv_missing_in_file2
        (compare_csv_files run_descending ''old/left.csv'' ''new/right.csv'' (Some ''out''))"
proof -
  have r: "read_csv run_descending ''old/left.csv'' = Inr left_table"
    "read_csv run_descending ''new/right.csv'' = Inr right_table"
    by (simp_all add: example_reads)
  have a: "csv_missing_in_file2
        (compare_csv_files run_ascending ''old/left.csv'' ''new/right.csv'' (Some ''out''))
       = Some (''out/left_missing_in_right_20240131_235959.csv'',
               \<lparr>columns = [''id'', ''code''], rows = [[''1'', ''007''], [''3'', ''y'']]\<rparr>)"
    by (simp add: csv_missing_in_file2_run [OF example_reads(1,2) example_proceeds(1)]
        example_missing)
       (simp add: run_ascending_def left_table_def missing_path_def output_dir_of_def
        path_join_def basename_def split_dot_0_def example_orders)
  have d: "csv_missing_in_file2
        (compare_csv_files run_descending ''old/left.csv'' ''new/right.csv'' (Some ''out''))
       = Some (''out/left_missing_in_right_20240131_235959.csv'',
               \<lparr>columns = [''id'', ''code''], rows = [[''3'', ''y''], [''1'', ''007'']]\<rparr>)"
    by (simp add: csv_missing_in_file2_run [OF r example_proceeds(2)] example_missing)
       (simp add: run_descending_def run_ascending_def left_table_def missing_path_def
        output_dir_of_def path_join_def basename_def split_dot_0_def example_orders)
  show ?thesis
    by (simp add: a d)
       (simp add: run_descending_def run_ascending_def lists_each_once_sorted
        lists_each_once_rev_sorted)
qed

text \<open>
  C9, amended. Two runs that read the same two tables and carry out the comparison write
  tables for the same sides, with the same header and the same rows, each row once; the
  order of the rows is the set iteration order of the run, and runs with the same
  iteration order write identical tables.
\<close>

theorem output_rows_up_to_order:
  assumes "read_csv e f1 = Inr df1" and "read_csv e f2 = Inr df2"
    and "proceeds e df1 df2" and "lists_each_once (list_of_set e)"
    and "read_csv e' f1 = Inr df1" and "read_csv e' f2 = Inr df2"
    and "proceeds e' df1 df2" and "lists_each_once (list_of_set e')"
  shows "rel_option same_up_to_row_order
           (map_option snd (csv_missing_in_file2 (compare_csv_files e f1 f2 od)))
           (map_option snd (csv_missing_in_file2 (compare_csv_files e' f1 f2 od')))
         \<and> rel_option same_up_to_row_order
           (map_option snd (csv_missing_in_file1 (compare_csv_files e f1 f2 od)))
           (map_option snd (csv_missing_in_file1 (compare_csv_files e' f1 f2 od')))
         \<and> (list_of_set e = list_of_set e' \<longrightarrow>
              map_option snd (csv_missing_in_file2 (compare_csv_files e f1 f2 od))
                = map_option snd (csv_missing_in_file2 (compare_csv_files e' f1 f2 od'))
              \<and> map_option snd (csv_missing_in_file1 (compare_csv_files e f1 f2 od))
                = map_option snd (csv_missing_in_file1 (compare_csv_files e' f1 f2 od')))"
proof -
  have each: "set (list_of_set e (set xs - set ys)) = set xs - set ys"
    "distinct (list_of_set e (set xs - set ys))" for xs ys :: "row list"
    using assms(4) by (simp_all add: lists_each_once_def)
  have each': "set (list_of_set e' (set xs - set ys)) = set xs - set ys"
    "distinct (list_of_set e' (set xs - set ys))" for xs ys :: "row list"
    using assms(8) by (simp_all add: lists_each_once_def)
  show ?thesis
    by (simp add: same_up_to_row_order_def each each'
        csv_missing_in_file2_run [OF assms(1,2,3)] csv_missing_in_file1_run [OF assms(1,2,3)]
        csv_missing_in_file2_run [OF assms(5,6,7)] csv_missing_in_file1_run [OF assms(5,6,7)])
qed

theorem output_rows_up_to_order_witness:
  "read_csv run_ascending ''old/left.csv'' = Inr left_table
   \<and> read_csv run_ascending ''new/right.csv'' = Inr right_table
   \<and> proceeds run_ascending left_table right_table
   \<and> lists_each_once (list_of_set run_ascending)
   \<and> read_csv run_descending ''old/left.csv'' = Inr left_table
   \<and> read_csv run_descending ''new/right.csv'' = Inr right_table
   \<and> proceeds run_descending left_table right_table
   \<and> lists_each_once (list_of_set run_descending)
   \<and> rel_option same_up_to_row_order
        (map_option snd (csv_missing_in_file2
           (compare_csv_files run_ascending ''old/left.csv'' ''new/right.csv'' None)))
        (map_option snd (csv_missing_in_file2
           (compare_csv_files run_descending ''old/left.csv'' ''new/right.csv'' None)))
   \<and> rel_option same_up_to_row_order
        (map_option snd (csv_missing_in_file1
           (compare_csv_files run_ascending ''old/left.csv'' ''new/right.csv'' None)))
        (map_option snd (csv_missing_in_file1
           (compare_csv_files run_descending ''old/left.csv'' ''new/right.csv'' None)))"
proof -
  have a: "lists_each_once (list_of_set run_ascending)"
    by (simp add: run_ascending_def lists_each_once_sorted)
  have d: "lists_each_once (list_of_set run_descending)"
    by (simp add: run_descending_def lists_each_once_rev_sorted)
  have r: "read_csv run_descending ''old/left.csv'' = Inr left_table"
    "read_csv run_descending ''new/right.csv'' = Inr right_table"
    by (simp_all add: example_reads)
  show ?thesis
    using output_rows_up_to_order [OF example_reads(1,2) example_proceeds(1) a
            r example_proceeds(2) d, of None None]
          a d r example_reads(1,2) example_proceeds
    by blast
qed

subsection \<open>The column warning\<close>

lemma repeated_field_reads:
  "read_csv run_repeated_field ''ab.csv'' = Inr repeated_field_table"
  "read_csv run_repeated_field ''ba.csv'' = Inr (reordered swapped repeated_field_table)"
  by (simp_all add: run_repeated_field_def repeated_field_read_csv_def)

lemma repeated_field_reordered:
  "reordered swapped repeated_field_table
     = \<lparr>columns = [''b'', ''a''], rows = [[''1'', ''1''], [''2'', ''1'']]\<rparr>"
  by (simp add: reordered_def reorder_def repeated_field_table_def swapped_def)

lemma repeated_field_swapped:
  "distinct swapped" "set swapped = {..<length (columns repeated_field_table)}"
  "reorder swapped [''1'', ''1''] = [''1'', ''1'']"
  "[''1'', ''1''] \<in> set (rows repeated_field_table)"
  by (auto simp add: repeated_field_table_def swapped_def reorder_def)

text \<open>
  C10 as stated: when the two tables have the same column names in another order, no
  warning is printed and identical data under the reordered columns is not counted as
  common. The last part fails for a row that the reordering leaves as it is: the table
  with header \<open>a, b\<close> and rows \<open>1, 1\<close> and \<open>1, 2\<close>, against the same data with the two
  columns swapped, gives no warning and one common row, \<open>1, 1\<close>.
\<close>

theorem reordered_row_common_counterexample:
  "read_csv run_repeated_field ''ab.csv'' = Inr repeated_field_table
   \<and> read_csv run_repeated_field ''ba.csv'' = Inr (reordered swapped repeated_field_table)
   \<and> repeated_field_table
       = \<lparr>columns = [''a'', ''b''], rows = [[''1'', ''1''], [''1'', ''2'']]\<rparr>
   \<and> reordered swapped repeated_field_table
       = \<lparr>columns = [''b'', ''a''], rows = [[''1'', ''1''], [''2'', ''1'']]\<rparr>
   \<and> Warning_columns
       \<notin> set (printed (compare_csv_files run_repeated_field ''ab.csv'' ''ba.csv'' None))
   \<and> common_rows (compare_rows repeated_field_table (reordered swapped repeated_field_table))
       = {[''1'', ''1'']}
   \<and> identical_rows (compare_rows repeated_field_table (reordered swapped repeated_field_table))
       = 1
   \<and> Identical_rows 1
       \<in> set (printed (compare_csv_files run_repeated_field ''ab.csv'' ''ba.csv'' None))"
proof -
  have nd: "\<not> columns_differ repeated_field_table (reordered swapped repeated_field_table)"
    by (simp add: repeated_field_reordered columns_differ_def)
       (auto simp add: repeated_field_table_def)
  have pr: "proceeds run_repeated_field repeated_field_table
              (reordered swapped repeated_field_table)"
    using nd by (simp add: proceeds_def)
  have w: "Warning_columns
             \<notin> set (printed (compare_csv_files run_repeated_field ''ab.csv'' ''ba.csv'' None))"
    using nd by (simp add: warning_printed [OF repeated_field_reads])
  have i: "set (rows repeated_field_table) \<inter> set (rows (reordered swapped repeated_field_table))
             = {[''1'', ''1'']}"
    by (simp add: repeated_field_reordered) (simp add: repeated_field_table_def)
  have l: "Identical_rows 1
       \<in> set (printed (compare_csv_files run_repeated_field ''ab.csv'' ''ba.csv'' None))"
    using nd by (simp add: printed_run [OF repeated_field_reads pr] i)
  show ?thesis
    using w l
    by (simp add: repeated_field_reads repeated_field_reordered [symmetric]
        compare_rows_sets compare_rows_counts i)
       (simp add: repeated_field_reordered repeated_field_table_def)
qed

text \<open>
  C10, amended. The warning is printed if and only if the two headers differ as sets, and
  the row sets do not depend on the headers. When the second table is the first with its
  columns permuted, no warning is printed, the run goes on, and rows are compared by
  position: the common rows are the rows of the first table that are also the permuted
  image of one of its rows, and the other rows of either table are reported missing from
  the other. So a row that the permutation leaves as it is counts as common, and a table
  of one row that the permutation changes has no common row.
\<close>

theorem schema_warning_positional_rows:
  assumes "read_csv e f1 = Inr df1" and "read_csv e f2 = Inr df2"
  shows "(Warning_columns \<in> set (printed (compare_csv_files e f1 f2 od)))
           = (set (columns df1) \<noteq> set (columns df2))
         \<and> compare_rows (df1\<lparr>columns := c1\<rparr>) (df2\<lparr>columns := c2\<rparr>) = compare_rows df1 df2
         \<and> (distinct p \<and> set p = {..<length (columns df1)} \<and> df2 = reordered p df1 \<longrightarrow>
               Warning_columns \<notin> set (printed (compare_csv_files e f1 f2 od))
               \<and> proceeds e df1 df2
               \<and> common_rows (compare_rows df1 df2)
                   = set (rows df1) \<inter> reorder p ` set (rows df1)
               \<and> missing_in_file2 (compare_rows df1 df2)
                   = set (rows df1) - reorder p ` set (rows df1)
               \<and> missing_in_file1 (compare_rows df1 df2)
                   = reorder p ` set (rows df1) - set (rows df1))
         \<and> (distinct p \<and> set p = {..<length (columns df1)} \<and> df2 = reordered p df1
              \<and> s \<in> set (rows df1) \<and> reorder p s = s \<longrightarrow>
               s \<in> common_rows (compare_rows df1 df2))
         \<and> (distinct p \<and> set p = {..<length (columns df1)} \<and> df2 = reordered p df1
              \<and> rows df1 = [r] \<and> reorder p r \<noteq> r \<longrightarrow>
               common_rows (compare_rows df1 df2) = {}
               \<and> identical_rows (compare_rows df1 df2) = 0
               \<and> missing_in_file2 (compare_rows df1 df2) = {r}
               \<and> missing_in_file1 (compare_rows df1 df2) = {reorder p r})"
proof -
  have w: "(Warning_columns \<in> set (printed (compare_csv_files e f1 f2 od)))
             = (set (columns df1) \<noteq> set (columns df2))"
    by (simp add: warning_printed [OF assms] columns_differ_def)
  have c: "compare_rows (df1\<lparr>columns := c1\<rparr>) (df2\<lparr>columns := c2\<rparr>) = compare_rows df1 df2"
    by (simp add: compare_rows_def astype_str_same itertuples_def)
  have same: "set (columns df2) = set (columns df1)"
    if "set p = {..<length (columns df1)}" and "df2 = reordered p df1"
    using that by (simp add: reordered_def set_reorder)
  have rw: "set (rows df2) = reorder p ` set (rows df1)" if "df2 = reordered p df1"
    using that by (simp add: reordered_def)
  have third: "distinct p \<and> set p = {..<length (columns df1)} \<and> df2 = reordered p df1 \<longrightarrow>
               Warning_columns \<notin> set (printed (compare_csv_files e f1 f2 od))
               \<and> proceeds e df1 df2
               \<and> common_rows (compare_rows df1 df2)
                   = set (rows df1) \<inter> reorder p ` set (rows df1)
               \<and> missing_in_file2 (compare_rows df1 df2)
                   = set (rows df1) - reorder p ` set (rows df1)
               \<and> missing_in_file1 (compare_rows df1 df2)
                   = reorder p ` set (rows df1) - set (rows df1)"
  proof
    assume h: "distinct p \<and> set p = {..<length (columns df1)} \<and> df2 = reordered p df1"
    then have "set (columns df2) = set (columns df1)"
      and "set (rows df2) = reorder p ` set (rows df1)"
      using same rw by simp_all
    then show "Warning_columns \<notin> set (printed (compare_csv_files e f1 f2 od))
               \<and> proceeds e df1 df2
               \<and> common_rows (compare_rows df1 df2)
                   = set (rows df1) \<inter> reorder p ` set (rows df1)
               \<and> missing_in_file2 (compare_rows df1 df2)
                   = set (rows df1) - reorder p ` set (rows df1)
               \<and> missing_in_file1 (compare_rows df1 df2)
                   = reorder p ` set (rows df1) - set (rows df1)"
      using w by (simp add: compare_rows_sets proceeds_def columns_differ_def)
  qed
  have fourth: "distinct p \<and> set p = {..<length (columns df1)} \<and> df2 = reordered p df1
              \<and> s \<in> set (rows df1) \<and> reorder p s = s \<longrightarrow>
               s \<in> common_rows (compare_rows df1 df2)"
  proof
    assume h: "distinct p \<and> set p = {..<length (columns df1)} \<and> df2 = reordered p df1
              \<and> s \<in> set (rows df1) \<and> reorder p s = s"
    then have "s = reorder p s" and "s \<in> set (rows df1)"
      by simp_all
    then have "s \<in> reorder p ` set (rows df1)"
      by (rule image_eqI)
    moreover have "set (rows df2) = reorder p ` set (rows df1)"
      using h rw by simp
    ultimately show "s \<in> common_rows (compare_rows df1 df2)"
      using h by (simp add: compare_rows_sets)
  qed
  have fifth: "distinct p \<and> set p = {..<length (columns df1)} \<and> df2 = reordered p df1
              \<and> rows df1 = [r] \<and> reorder p r \<noteq> r \<longrightarrow>
               common_rows (compare_rows df1 df2) = {}
               \<and> identical_rows (compare_rows df1 df2) = 0
               \<and> missing_in_file2 (compare_rows df1 df2) = {r}
               \<and> missing_in_file1 (compare_rows df1 df2) = {reorder p r}"
  proof
    assume h: "distinct p \<and> set p = {..<length (columns df1)} \<and> df2 = reordered p df1
              \<and> rows df1 = [r] \<and> reorder p r \<noteq> r"
    then have "set (rows df1) = {r}" and "set (rows df2) = {reorder p r}"
      using rw by simp_all
    then show "common_rows (compare_rows df1 df2) = {}
               \<and> identical_rows (compare_rows df1 df2) = 0
               \<and> missing_in_file2 (compare_rows df1 df2) = {r}
               \<and> missing_in_file1 (compare_rows df1 df2) = {reorder p r}"
      using h by (auto simp add: compare_rows_sets compare_rows_counts)
  qed
  show ?thesis
    apply (intro conjI)
        apply (rule w)
       apply (rule c)
      apply (rule third)
     apply (rule fourth)
    apply (rule fifth)
    done
qed

theorem schema_warning_positional_rows_witness:
  "read_csv run_ascending ''ab.csv'' = Inr ab_table
   \<and> read_csv run_ascending ''ba.csv'' = Inr (reordered swapped ab_table)
   \<and> reordered swapped ab_table = \<lparr>columns = [''b'', ''a''], rows = [[''2'', ''1'']]\<rparr>
   \<and> distinct swapped \<and> set swapped = {..<length (columns ab_table)}
   \<and> rows ab_table = [[''1'', ''2'']]
   \<and> reorder swapped [''1'', ''2''] \<noteq> [''1'', ''2'']
   \<and> Warning_columns \<notin> set (printed (compare_csv_files run_ascending ''ab.csv'' ''ba.csv'' None))
   \<and> identical_rows (compare_rows ab_table (reordered swapped ab_table)) = 0
   \<and> missing_in_file2 (compare_rows ab_table (reordered swapped ab_table)) = {[''1'', ''2'']}
   \<and> missing_in_file1 (compare_rows ab_table (reordered swapped ab_table)) = {[''2'', ''1'']}
   \<and> read_csv run_repeated_field ''ab.csv'' = Inr repeated_field_table
   \<and> read_csv run_repeated_field ''ba.csv'' = Inr (reordered swapped repeated_field_table)
   \<and> set swapped = {..<length (columns repeated_field_table)}
   \<and> [''1'', ''1''] \<in> set (rows repeated_field_table)
   \<and> reorder swapped [''1'', ''1''] = [''1'', ''1'']
   \<and> [''1'', ''1'']
       \<in> common_rows (compare_rows repeated_field_table (reordered swapped repeated_field_table))"
proof -
  have p: "distinct swapped" "set swapped = {..<length (columns ab_table)}"
    by (auto simp add: ab_table_def swapped_def)
  have q: "rows ab_table = [[''1'', ''2'']]"
    "reorder swapped [''1'', ''2''] = [''2'', ''1'']"
    "reorder swapped [''1'', ''2''] \<noteq> [''1'', ''2'']"
    by (simp_all add: ab_table_def reorder_def swapped_def)
  note t = schema_warning_positional_rows [OF example_reads(3,4), of None "columns ab_table"
             "columns ab_table" swapped "[''1'', ''2'']" "[''1'', ''2'']"]
  have w: "Warning_columns
             \<notin> set (printed (compare_csv_files run_ascending ''ab.csv'' ''ba.csv'' None))"
    using t p by blast
  have i: "identical_rows (compare_rows ab_table (reordered swapped ab_table)) = 0"
    using t p q(1,3) by blast
  have m2: "missing_in_file2 (compare_rows ab_table (reordered swapped ab_table))
              = {[''1'', ''2'']}"
    using t p q(1,3) by blast
  have m1: "missing_in_file1 (compare_rows ab_table (reordered swapped ab_table))
              = {reorder swapped [''1'', ''2'']}"
    using t p q(1,3) by blast
  note u = schema_warning_positional_rows [OF repeated_field_reads, of None
             "columns repeated_field_table" "columns repeated_field_table" swapped
             "[''1'', ''1'']" "[''1'', ''1'']"]
  have k: "[''1'', ''1'']
       \<in> common_rows (compare_rows repeated_field_table (reordered swapped repeated_field_table))"
    using u repeated_field_swapped by blast
  show ?thesis
    using w i m2 m1 k p q repeated_field_swapped example_reads(3,4) example_reordered
      repeated_field_reads
    by simp
qed

end
